theory Spec2Isabelle
  imports Main "HOL-Library.Sublist"
begin

section \<open>Data marshalled out of the page context\<close>

text \<open>
  Modelled from the spec: the files \<^verbatim>\<open>model/chat.ts\<close>, \<^verbatim>\<open>model/contact.ts\<close>,
  \<^verbatim>\<open>model/message.ts\<close> and \<^verbatim>\<open>model/id.ts\<close> are imported by
  \<^verbatim>\<open>src/api/whatsapp.ts\<close> but are not among the sources. The facade reads exactly two
  attributes of them, \<^verbatim>\<open>chat.isGroup\<close> and \<^verbatim>\<open>memberId._serialized\<close>; every other
  attribute is carried along untouched. The records below keep those two attributes and
  the identifiers the spec's data model names (an identifier, a group flag and an
  unread-state flag for a chat; an identifier for a contact; an identifier and a chat for
  a message). The field \<^verbatim>\<open>_serialized\<close> is written \<open>serialized\<close>.
\<close>

record Id =
  serialized :: string

record Chat =
  chat_id :: string
  isGroup :: bool
  unread :: bool

record Contact =
  contact_id :: string

record Message =
  message_id :: string
  message_chat :: string

text \<open>Values the declarations type as \<^verbatim>\<open>any\<close> or \<^verbatim>\<open>object\<close>: plain serialisable data.\<close>

datatype json =
    JNull
  | JBool bool
  | JStr string
  | JArr "json list"
  | JObj "(string \<times> json) list"

section \<open>Failures and promises\<close>

text \<open>
  The failures an evaluation in the page can end with (spec, section 7): the execution
  context is gone, an injected function is missing, or the code in the page threw.
\<close>

datatype failure =
    ContextDestroyed
  | FunctionMissing string
  | Thrown string

text \<open>
  A promise as it stands once nothing more will happen to it: still pending (the awaiting
  call hangs for ever), fulfilled with a value, or rejected with a failure.
\<close>

datatype 'a promise =
    Pending
  | Fulfilled 'a
  | Rejected failure

text \<open>
  A promise object inside the page, together with the number of times it changed
  from pending to settled. \<open>resolve\<close> and \<open>reject\<close> act only on a pending
  promise, as those of a JavaScript \<^verbatim>\<open>Promise\<close> do.
\<close>

record 'a cell =
  state :: "'a promise"
  settlements :: nat

definition new_cell :: "'a cell" where
  "new_cell = \<lparr>state = Pending, settlements = 0\<rparr>"

definition resolve :: "'a \<Rightarrow> 'a cell \<Rightarrow> 'a cell" where
  "resolve v c =
     (case state c of
        Pending \<Rightarrow> \<lparr>state = Fulfilled v, settlements = Suc (settlements c)\<rparr>
      | _ \<Rightarrow> c)"

definition reject :: "failure \<Rightarrow> 'a cell \<Rightarrow> 'a cell" where
  "reject e c =
     (case state c of
        Pending \<Rightarrow> \<lparr>state = Rejected e, settlements = Suc (settlements c)\<rparr>
      | _ \<Rightarrow> c)"

text \<open>The outcome of a call that returns or throws, as the promise awaiting it.\<close>

fun settle :: "failure + 'a \<Rightarrow> 'a promise" where
  "settle (Inl e) = Rejected e"
| "settle (Inr v) = Fulfilled v"

section \<open>The injected API: \<^verbatim>\<open>declare module WAPI\<close>\<close>

text \<open>
  The functions of \<^verbatim>\<open>WAPI\<close> live in the page; the source only declares their types
  (lines 8 to 27). They are a parameter of the model: a record of behaviours over an
  arbitrary state \<open>'s\<close> of the page. A function that returns a value either throws or
  returns, and may change the state of the page.

  A callback-style function (\<^verbatim>\<open>(chatId, callback) => void\<close>) is given by what it does
  with its callback: the arguments of the invocations it makes before it returns, the
  failure it throws instead of returning (if any), and the arguments of the invocations
  that happen after it has returned.
\<close>

type_synonym ('s, 'a) remote = "'s \<Rightarrow> (failure + 'a) \<times> 's"

record 'c callback_run =
  sync_calls :: "'c list"
  thrown :: "failure option"
  async_calls :: "'c list"

type_synonym ('s, 'c) remote_cb = "'s \<Rightarrow> 'c callback_run \<times> 's"

record 's WAPI_impl =
  impl_waitNewMessages :: "bool \<Rightarrow> ('s, Message) remote_cb"
  impl_sendMessage :: "string \<Rightarrow> string \<Rightarrow> ('s, unit) remote"
  impl_ReplyMessage :: "string \<Rightarrow> string \<Rightarrow> ('s, unit) remote"
  impl_sendSeen :: "string \<Rightarrow> ('s, unit) remote"
  impl_getAllContacts :: "('s, Contact list) remote"
  impl_getAllChats :: "('s, Chat list) remote"
  impl_getAllChatsWithNewMsg :: "('s, Chat list) remote"
  impl_getAllGroups :: "('s, Chat list) remote"
  impl_getMessageById :: "string \<Rightarrow> ('s, Message) remote"
  impl_getGroupParticipantIDs :: "string \<Rightarrow> ('s, Id list) remote"
  impl_getContact :: "string \<Rightarrow> ('s, Contact) remote"
  impl_sendContact :: "string \<Rightarrow> string + string list \<Rightarrow> ('s, json) remote"
  impl_loadAllEarlierMessages :: "string \<Rightarrow> ('s, unit) remote_cb"
  impl_loadEarlierMessages :: "string \<Rightarrow> ('s, unit) remote_cb"
  impl_areAllMessagesLoaded :: "string \<Rightarrow> ('s, bool) remote"
  impl_getAllMessagesInChat :: "string \<Rightarrow> ('s, Message list) remote"
  impl_getGroupMetadata :: "string \<Rightarrow> ('s, json) remote"
  impl_getProfilePicFromId :: "string \<Rightarrow> ('s, string) remote_cb"

text \<open>One entry of the log of invocations of \<^verbatim>\<open>WAPI\<close> functions, with the arguments received.\<close>

datatype wapi_call =
    C_waitNewMessages bool
  | C_sendMessage string string
  | C_ReplyMessage string string
  | C_sendSeen string
  | C_getAllContacts
  | C_getAllChats
  | C_getAllChatsWithNewMsg
  | C_getAllGroups
  | C_getMessageById string
  | C_getGroupParticipantIDs string
  | C_getContact string
  | C_sendContact string "string + string list"
  | C_loadAllEarlierMessages string
  | C_loadEarlierMessages string
  | C_areAllMessagesLoaded string
  | C_getAllMessagesInChat string
  | C_getGroupMetadata string
  | C_getProfilePicFromId string

section \<open>The page (the automation layer's \<^verbatim>\<open>Page\<close>)\<close>

text \<open>
  Modelled from the spec: puppeteer's \<^verbatim>\<open>Page\<close> is an external collaborator (spec,
  section 6). A page holds the state of its execution context (\<open>window\<close>), the injected
  API, the log of the \<^verbatim>\<open>WAPI\<close> invocations made in it, the functions exposed to it by
  name (\<open>bindings\<close>), and whether it has been closed. Evaluating in a closed page fails
  with \<open>ContextDestroyed\<close> and runs nothing.
\<close>

record ('s, 'h) Page =
  closed :: bool
  window :: 's
  api :: "'s WAPI_impl"
  calls :: "wapi_call list"
  bindings :: "(string \<times> 'h) list"

type_synonym ('s, 'h, 'a) script = "('s, 'h) Page \<Rightarrow> (failure + 'a) \<times> ('s, 'h) Page"

text \<open>Invoking a \<^verbatim>\<open>WAPI\<close> function in the page: it runs on the page's state and is logged.\<close>

definition invoke ::
  "wapi_call \<Rightarrow> ('s WAPI_impl \<Rightarrow> ('s, 'a) remote) \<Rightarrow> ('s, 'h, 'a) script" where
  "invoke c f pg =
     (case f (api pg) (window pg) of
        (r, w') \<Rightarrow> (r, pg\<lparr>window := w', calls := calls pg @ [c]\<rparr>))"

text \<open>Two statements in sequence: when the first throws, the second does not run.\<close>

definition seq :: "('s, 'h, unit) script \<Rightarrow> ('s, 'h, 'a) script \<Rightarrow> ('s, 'h, 'a) script" where
  "seq a b pg =
     (case a pg of
        (Inl e, pg') \<Rightarrow> (Inl e, pg')
      | (Inr u, pg') \<Rightarrow> b pg')"

definition WAPI_sendMessage :: "string \<Rightarrow> string \<Rightarrow> ('s, 'h, unit) script" where
  "WAPI_sendMessage to content = invoke (C_sendMessage to content) (\<lambda>W. impl_sendMessage W to content)"

definition WAPI_ReplyMessage :: "string \<Rightarrow> string \<Rightarrow> ('s, 'h, unit) script" where
  "WAPI_ReplyMessage messageId content =
     invoke (C_ReplyMessage messageId content) (\<lambda>W. impl_ReplyMessage W messageId content)"

definition WAPI_sendSeen :: "string \<Rightarrow> ('s, 'h, unit) script" where
  "WAPI_sendSeen to = invoke (C_sendSeen to) (\<lambda>W. impl_sendSeen W to)"

definition WAPI_getAllContacts :: "('s, 'h, Contact list) script" where
  "WAPI_getAllContacts = invoke C_getAllContacts impl_getAllContacts"

definition WAPI_getAllChats :: "('s, 'h, Chat list) script" where
  "WAPI_getAllChats = invoke C_getAllChats impl_getAllChats"

definition WAPI_getAllChatsWithNewMsg :: "('s, 'h, Chat list) script" where
  "WAPI_getAllChatsWithNewMsg = invoke C_getAllChatsWithNewMsg impl_getAllChatsWithNewMsg"

definition WAPI_getAllGroups :: "('s, 'h, Chat list) script" where
  "WAPI_getAllGroups = invoke C_getAllGroups impl_getAllGroups"

definition WAPI_getMessageById :: "string \<Rightarrow> ('s, 'h, Message) script" where
  "WAPI_getMessageById messageId =
     invoke (C_getMessageById messageId) (\<lambda>W. impl_getMessageById W messageId)"

definition WAPI_getGroupParticipantIDs :: "string \<Rightarrow> ('s, 'h, Id list) script" where
  "WAPI_getGroupParticipantIDs groupId =
     invoke (C_getGroupParticipantIDs groupId) (\<lambda>W. impl_getGroupParticipantIDs W groupId)"

definition WAPI_getContact :: "string \<Rightarrow> ('s, 'h, Contact) script" where
  "WAPI_getContact contactId = invoke (C_getContact contactId) (\<lambda>W. impl_getContact W contactId)"

definition WAPI_sendContact :: "string \<Rightarrow> string + string list \<Rightarrow> ('s, 'h, json) script" where
  "WAPI_sendContact to contact = invoke (C_sendContact to contact) (\<lambda>W. impl_sendContact W to contact)"

definition WAPI_areAllMessagesLoaded :: "string \<Rightarrow> ('s, 'h, bool) script" where
  "WAPI_areAllMessagesLoaded chatId =
     invoke (C_areAllMessagesLoaded chatId) (\<lambda>W. impl_areAllMessagesLoaded W chatId)"

definition WAPI_getAllMessagesInChat :: "string \<Rightarrow> ('s, 'h, Message list) script" where
  "WAPI_getAllMessagesInChat chatId =
     invoke (C_getAllMessagesInChat chatId) (\<lambda>W. impl_getAllMessagesInChat W chatId)"

definition WAPI_getGroupMetadata :: "string \<Rightarrow> ('s, 'h, json) script" where
  "WAPI_getGroupMetadata groupId =
     invoke (C_getGroupMetadata groupId) (\<lambda>W. impl_getGroupMetadata W groupId)"

text \<open>
  A callback-style function, called with a callback \<open>cb\<close>: what comes back is the run
  of the callback's effects (before the return, the throw if any, after the return).
\<close>

definition map_run :: "('c \<Rightarrow> 'x) \<Rightarrow> 'c callback_run \<Rightarrow> 'x callback_run" where
  "map_run cb r =
     \<lparr>sync_calls = map cb (sync_calls r), thrown = thrown r, async_calls = map cb (async_calls r)\<rparr>"

definition invoke_cb ::
  "wapi_call \<Rightarrow> ('s WAPI_impl \<Rightarrow> ('s, 'c) remote_cb) \<Rightarrow> ('c \<Rightarrow> 'x) \<Rightarrow>
     ('s, 'h) Page \<Rightarrow> 'x callback_run \<times> ('s, 'h) Page" where
  "invoke_cb c f cb pg =
     (case f (api pg) (window pg) of
        (r, w') \<Rightarrow> (map_run cb r, pg\<lparr>window := w', calls := calls pg @ [c]\<rparr>))"

definition WAPI_loadAllEarlierMessages ::
  "string \<Rightarrow> (unit \<Rightarrow> 'x) \<Rightarrow> ('s, 'h) Page \<Rightarrow> 'x callback_run \<times> ('s, 'h) Page" where
  "WAPI_loadAllEarlierMessages chatId callback =
     invoke_cb (C_loadAllEarlierMessages chatId) (\<lambda>W. impl_loadAllEarlierMessages W chatId) callback"

definition WAPI_loadEarlierMessages ::
  "string \<Rightarrow> (unit \<Rightarrow> 'x) \<Rightarrow> ('s, 'h) Page \<Rightarrow> 'x callback_run \<times> ('s, 'h) Page" where
  "WAPI_loadEarlierMessages chatId callback =
     invoke_cb (C_loadEarlierMessages chatId) (\<lambda>W. impl_loadEarlierMessages W chatId) callback"

definition WAPI_getProfilePicFromId ::
  "string \<Rightarrow> (string \<Rightarrow> 'x) \<Rightarrow> ('s, 'h) Page \<Rightarrow> 'x callback_run \<times> ('s, 'h) Page" where
  "WAPI_getProfilePicFromId ident callback =
     invoke_cb (C_getProfilePicFromId ident) (\<lambda>W. impl_getProfilePicFromId W ident) callback"

text \<open>
  \<^verbatim>\<open>new Promise(resolve => ...)\<close> in the page. The executor receives \<open>resolve\<close>; the
  effects it schedules are applied in time order to a fresh promise: those made before
  the executor returns, then the rejection if the executor throws, then the later ones.
\<close>

definition perform :: "('a cell \<Rightarrow> 'a cell) callback_run \<Rightarrow> 'a cell" where
  "perform r =
     fold (\<lambda>act. act) (async_calls r)
       ((case thrown r of None \<Rightarrow> (\<lambda>c. c) | Some e \<Rightarrow> reject e)
          (fold (\<lambda>act. act) (sync_calls r) new_cell))"

definition new_Promise ::
  "(('a \<Rightarrow> 'a cell \<Rightarrow> 'a cell) \<Rightarrow> ('s, 'h) Page \<Rightarrow> ('a cell \<Rightarrow> 'a cell) callback_run \<times> ('s, 'h) Page)
     \<Rightarrow> ('s, 'h) Page \<Rightarrow> 'a cell \<times> ('s, 'h) Page" where
  "new_Promise executor pg = (case executor resolve pg of (r, pg') \<Rightarrow> (perform r, pg'))"

text \<open>
  \<^verbatim>\<open>page.evaluate(fn, arg)\<close>: runs \<open>fn arg\<close> in the page and settles with what it
  returns or throws. \<^verbatim>\<open>page.evaluateHandle(fn, arg)\<close>, for a function that returns a
  promise: waits for that promise and hands back a handle to its value.
  \<^verbatim>\<open>page.exposeFunction(name, fn)\<close>: binds \<open>fn\<close> to \<open>name\<close> in the page, and fails
  when the name is taken.
\<close>

datatype 'a JSHandle = JSHandle 'a

definition evaluate ::
  "('a \<Rightarrow> ('s, 'h, 'b) script) \<Rightarrow> 'a \<Rightarrow> ('s, 'h) Page \<Rightarrow> 'b promise \<times> ('s, 'h) Page" where
  "evaluate fn arg pg =
     (if closed pg then (Rejected ContextDestroyed, pg)
      else (case fn arg pg of (r, pg') \<Rightarrow> (settle r, pg')))"

fun handle_of :: "'a promise \<Rightarrow> 'a JSHandle promise" where
  "handle_of Pending = Pending"
| "handle_of (Fulfilled v) = Fulfilled (JSHandle v)"
| "handle_of (Rejected e) = Rejected e"

definition evaluateHandle ::
  "('a \<Rightarrow> ('s, 'h) Page \<Rightarrow> 'b cell \<times> ('s, 'h) Page) \<Rightarrow> 'a \<Rightarrow> ('s, 'h) Page \<Rightarrow>
     'b JSHandle promise \<times> ('s, 'h) Page" where
  "evaluateHandle fn arg pg =
     (if closed pg then (Rejected ContextDestroyed, pg)
      else (case fn arg pg of (c, pg') \<Rightarrow> (handle_of (state c), pg')))"

definition exposeFunction ::
  "string \<Rightarrow> 'h \<Rightarrow> ('s, 'h) Page \<Rightarrow> unit promise \<times> ('s, 'h) Page" where
  "exposeFunction name fn pg =
     (if closed pg then (Rejected ContextDestroyed, pg)
      else if name \<in> set (map fst (bindings pg))
        then (Rejected (Thrown ''Failed to add page binding''), pg)
      else (Fulfilled (), pg\<lparr>bindings := bindings pg @ [(name, fn)]\<rparr>))"

section \<open>The facade: \<^verbatim>\<open>class Whatsapp\<close>\<close>

text \<open>
  The object holds a reference to a page. The state of the program is the object and
  the store of pages; a method takes the state and returns the promise it leaves
  (as it stands in the end) and the new state.
\<close>

type_synonym page_ref = nat

record Whatsapp =
  page :: page_ref

record ('s, 'h) world =
  this :: Whatsapp
  heap :: "page_ref \<Rightarrow> ('s, 'h) Page"

type_synonym ('s, 'h, 'a) async = "('s, 'h) world \<Rightarrow> 'a promise \<times> ('s, 'h) world"

definition Whatsapp_new :: "page_ref \<Rightarrow> Whatsapp" where
  "Whatsapp_new p = \<lparr>page = p\<rparr>"

text \<open>A call of a method of \<^verbatim>\<open>this.page\<close>.\<close>

definition on_page ::
  "(('s, 'h) Page \<Rightarrow> 'r \<times> ('s, 'h) Page) \<Rightarrow> ('s, 'h) world \<Rightarrow> 'r \<times> ('s, 'h) world" where
  "on_page m st =
     (case m (heap st (page (this st))) of
        (r, pg') \<Rightarrow> (r, st\<lparr>heap := (heap st)(page (this st) := pg')\<rparr>))"

text \<open>
  \<^verbatim>\<open>await p\<close> followed by the rest of an async function, and its \<^verbatim>\<open>return\<close>: a
  rejection of the awaited promise is rethrown and rejects the function's promise with
  the same failure; an awaited promise that never settles leaves it pending.
\<close>

definition await :: "('s, 'h, 'a) async \<Rightarrow> ('a \<Rightarrow> ('s, 'h, 'b) async) \<Rightarrow> ('s, 'h, 'b) async" where
  "await m k st =
     (case m st of
        (Fulfilled v, st') \<Rightarrow> k v st'
      | (Rejected e, st') \<Rightarrow> (Rejected e, st')
      | (Pending, st') \<Rightarrow> (Pending, st'))"

definition async_return :: "'a \<Rightarrow> ('s, 'h, 'a) async" where
  "async_return v st = (Fulfilled v, st)"

text \<open>Line 38: \<^verbatim>\<open>onMessage\<close>. The promise of \<^verbatim>\<open>exposeFunction\<close> is dropped. The name
  \<^verbatim>\<open>ExposedFn.OnMessage\<close> comes from a file that is not among the sources and is a
  parameter.\<close>

definition onMessage :: "string \<Rightarrow> (Message \<Rightarrow> 'r) \<Rightarrow> ('s, Message \<Rightarrow> 'r) world \<Rightarrow> ('s, Message \<Rightarrow> 'r) world" where
  "onMessage ExposedFn_OnMessage fn st =
     snd (on_page (exposeFunction ExposedFn_OnMessage (\<lambda>message. fn message)) st)"

text \<open>Line 49: \<^verbatim>\<open>sendText\<close>.\<close>

definition sendText :: "string \<Rightarrow> string \<Rightarrow> ('s, 'h, unit) async" where
  "sendText to content =
     await (on_page (evaluate
         (\<lambda>(to, content). seq (WAPI_sendSeen to) (WAPI_sendMessage to content))
         (to, content)))
       async_return"

text \<open>Line 64: \<^verbatim>\<open>replyMessage\<close>.\<close>

definition replyMessage :: "string \<Rightarrow> string \<Rightarrow> ('s, 'h, unit) async" where
  "replyMessage messageId content =
     await (on_page (evaluate
         (\<lambda>(messageId, content). WAPI_ReplyMessage messageId content)
         (messageId, content)))
       async_return"

text \<open>Line 78: \<^verbatim>\<open>sendContact\<close>.\<close>

definition sendContact :: "string \<Rightarrow> string + string list \<Rightarrow> ('s, 'h, json) async" where
  "sendContact to contactId =
     await (on_page (evaluate
         (\<lambda>(to, contactId). WAPI_sendContact to contactId)
         (to, contactId)))
       async_return"

text \<open>Line 89: \<^verbatim>\<open>getAllContacts\<close>.\<close>

definition getAllContacts :: "('s, 'h, Contact list) async" where
  "getAllContacts = await (on_page (evaluate (\<lambda>u. WAPI_getAllContacts) ())) async_return"

text \<open>Line 97: \<^verbatim>\<open>getAllChats\<close>.\<close>

definition getAllChats :: "bool \<Rightarrow> ('s, 'h, Chat list) async" where
  "getAllChats withNewMessageOnly =
     (if withNewMessageOnly
      then await (on_page (evaluate (\<lambda>u. WAPI_getAllChatsWithNewMsg) ())) async_return
      else await (on_page (evaluate (\<lambda>u. WAPI_getAllChats) ())) async_return)"

text \<open>Line 111: \<^verbatim>\<open>getAllGroups\<close>.\<close>

definition getAllGroups :: "bool \<Rightarrow> ('s, 'h, Chat list) async" where
  "getAllGroups withNewMessagesOnly =
     (if withNewMessagesOnly
      then await (on_page (evaluate (\<lambda>u. WAPI_getAllChatsWithNewMsg) ()))
             (\<lambda>chats. async_return (filter (\<lambda>chat. isGroup chat) chats))
      else await (on_page (evaluate (\<lambda>u. WAPI_getAllChats) ()))
             (\<lambda>chats. async_return (filter (\<lambda>chat. isGroup chat) chats)))"

text \<open>Line 126: \<^verbatim>\<open>getGroupMembersId\<close>.\<close>

definition getGroupMembersId :: "string \<Rightarrow> ('s, 'h, Id list) async" where
  "getGroupMembersId groupId =
     await (on_page (evaluate (\<lambda>groupId. WAPI_getGroupParticipantIDs groupId) groupId))
       async_return"

text \<open>Line 175: \<^verbatim>\<open>getContact\<close>.\<close>

definition getContact :: "string \<Rightarrow> ('s, 'h, Contact) async" where
  "getContact contactId =
     await (on_page (evaluate (\<lambda>contactId. WAPI_getContact contactId) contactId))
       async_return"

text \<open>
  \<^verbatim>\<open>xs.map(x => f(x))\<close> for an async \<open>f\<close>: the calls are made one after the other, in
  the order of the array, each running up to its request to the page; what is collected
  is the list of their promises.
\<close>

fun Array_map ::
  "('a \<Rightarrow> ('s, 'h, 'b) async) \<Rightarrow> 'a list \<Rightarrow> ('s, 'h) world \<Rightarrow> 'b promise list \<times> ('s, 'h) world" where
  "Array_map f [] st = ([], st)"
| "Array_map f (x # xs) st =
     (case f x st of
        (p, st') \<Rightarrow> (case Array_map f xs st' of (ps, st'') \<Rightarrow> (p # ps, st'')))"

text \<open>
  \<^verbatim>\<open>Promise.all(ps)\<close>. The promises settle in some order, which the caller does not
  control: \<open>delay i\<close> is the time at which the promise at index \<open>i\<close> settles (equal
  times in index order). \<^verbatim>\<open>Promise.all\<close> rejects with the failure of the first promise
  that is rejected, in that order; with no rejection it is fulfilled with the values in the
  order of the array once all are fulfilled, and stays pending otherwise.
\<close>

definition completion_order :: "(nat \<Rightarrow> nat) \<Rightarrow> nat \<Rightarrow> nat list" where
  "completion_order delay n = sort_key delay [0..<n]"

fun rejection :: "'a promise \<Rightarrow> failure option" where
  "rejection (Rejected e) = Some e"
| "rejection p = None"

fun fulfilment :: "'a promise \<Rightarrow> 'a option" where
  "fulfilment (Fulfilled v) = Some v"
| "fulfilment p = None"

definition Promise_all :: "(nat \<Rightarrow> nat) \<Rightarrow> 'a promise list \<Rightarrow> ('s, 'h, 'a list) async" where
  "Promise_all delay ps st =
     (case List.map_filter (\<lambda>i. rejection (ps ! i)) (completion_order delay (length ps)) of
        e # es \<Rightarrow> (Rejected e, st)
      | [] \<Rightarrow>
          (case those (map fulfilment ps) of
             Some vs \<Rightarrow> (Fulfilled vs, st)
           | None \<Rightarrow> (Pending, st)))"

text \<open>Line 137: \<^verbatim>\<open>getGroupMembers\<close>. The order in which the lookups complete is the
  parameter \<open>delay\<close>.\<close>

definition getGroupMembers :: "(nat \<Rightarrow> nat) \<Rightarrow> string \<Rightarrow> ('s, 'h, Contact list) async" where
  "getGroupMembers delay groupId =
     await (getGroupMembersId groupId) (\<lambda>membersIds st.
       case Array_map (\<lambda>memberId. getContact (serialized memberId)) membersIds st of
         (actions, st') \<Rightarrow> await (Promise_all delay actions) async_return st')"

text \<open>Line 149: \<^verbatim>\<open>getGroupMetadata\<close>.\<close>

definition getGroupMetadata :: "string \<Rightarrow> ('s, 'h, json) async" where
  "getGroupMetadata groupId =
     await (on_page (evaluate (\<lambda>groupId. WAPI_getGroupMetadata groupId) groupId))
       async_return"

text \<open>Line 160: \<^verbatim>\<open>getProfilePicFromId\<close>.\<close>

definition getProfilePicFromId :: "string \<Rightarrow> ('s, 'h, string JSHandle) async" where
  "getProfilePicFromId ident =
     await (on_page (evaluateHandle
         (\<lambda>ident. new_Promise (\<lambda>resolve.
            WAPI_getProfilePicFromId ident (\<lambda>img. resolve img)))
         ident))
       async_return"

text \<open>Line 186: \<^verbatim>\<open>getMessageById\<close>.\<close>

definition getMessageById :: "string \<Rightarrow> ('s, 'h, Message) async" where
  "getMessageById messageId =
     await (on_page (evaluate (\<lambda>messageId. WAPI_getMessageById messageId) messageId))
       async_return"

text \<open>Line 197: \<^verbatim>\<open>areAllMessagesLoaded\<close>.\<close>

definition areAllMessagesLoaded :: "string \<Rightarrow> ('s, 'h, bool) async" where
  "areAllMessagesLoaded chatId =
     await (on_page (evaluate (\<lambda>chatId. WAPI_areAllMessagesLoaded chatId) chatId))
       async_return"

text \<open>Line 208: \<^verbatim>\<open>loadEarlierMessagesInChat\<close>.\<close>

definition loadEarlierMessagesInChat :: "string \<Rightarrow> ('s, 'h, unit JSHandle) async" where
  "loadEarlierMessagesInChat chatId =
     await (on_page (evaluateHandle
         (\<lambda>chatId. new_Promise (\<lambda>resolve.
            WAPI_loadEarlierMessages chatId (\<lambda>u. resolve ())))
         chatId))
       async_return"

text \<open>Line 222: \<^verbatim>\<open>loadAllEarlierMessagesInChat\<close>.\<close>

definition loadAllEarlierMessagesInChat :: "string \<Rightarrow> ('s, 'h, unit JSHandle) async" where
  "loadAllEarlierMessagesInChat chatId =
     await (on_page (evaluateHandle
         (\<lambda>chatId. new_Promise (\<lambda>resolve.
            WAPI_loadAllEarlierMessages chatId (\<lambda>u. resolve ())))
         chatId))
       async_return"

text \<open>Line 237: \<^verbatim>\<open>getAllMessagesInChat\<close>.\<close>

definition getAllMessagesInChat :: "string \<Rightarrow> ('s, 'h, Message list) async" where
  "getAllMessagesInChat chatId =
     await (on_page (evaluate (\<lambda>chatId. WAPI_getAllMessagesInChat chatId) chatId))
       async_return"

section \<open>Observing a run\<close>

text \<open>The page the object refers to, the log of that page, and the invocations a call
  added to it.\<close>

definition the_page :: "('s, 'h) world \<Rightarrow> ('s, 'h) Page" where
  "the_page st = heap st (page (this st))"

definition log_of :: "('s, 'h) world \<Rightarrow> wapi_call list" where
  "log_of st = calls (the_page st)"

definition new_calls :: "('s, 'h) world \<Rightarrow> ('s, 'h) world \<Rightarrow> wapi_call list" where
  "new_calls st st' = drop (length (log_of st)) (log_of st')"

text \<open>All the invocations a callback-style function makes of its callback, in time order.\<close>

definition callbacks :: "'c callback_run \<Rightarrow> 'c list" where
  "callbacks r = sync_calls r @ async_calls r"

text \<open>A promise in the page counts its settlements rightly: none while it is pending, one
  once it is settled.\<close>

definition settled_right :: "'a cell \<Rightarrow> bool" where
  "settled_right c \<longleftrightarrow> settlements c = (if state c = Pending then 0 else 1)"

text \<open>\<^verbatim>\<open>new Whatsapp(page)\<close> in a store \<open>h\<close> of pages, and what it means that a later
  state still holds the same session handle: the object refers to the same page, and
  that page is closed exactly if it was.\<close>

definition constructed :: "page_ref \<Rightarrow> (page_ref \<Rightarrow> ('s, 'h) Page) \<Rightarrow> ('s, 'h) world" where
  "constructed p h = \<lparr>this = Whatsapp_new p, heap = h\<rparr>"

definition session_kept :: "('s, 'h) world \<Rightarrow> ('s, 'h) world \<Rightarrow> bool" where
  "session_kept st st' \<longleftrightarrow>
     page (this st') = page (this st) \<and>
     closed (heap st' (page (this st))) = closed (heap st (page (this st)))"

text \<open>The same state with a different injected API in the object's page.\<close>

definition with_api :: "('s WAPI_impl \<Rightarrow> 's WAPI_impl) \<Rightarrow> ('s, 'h) world \<Rightarrow> ('s, 'h) world" where
  "with_api change st =
     st\<lparr>heap := (heap st)(page (this st) := (the_page st)\<lparr>api := change (api (the_page st))\<rparr>)\<rparr>"

section \<open>A stub page\<close>

text \<open>
  A stub of the injected API, over a page whose state is a journal of what was sent. A
  read with the empty key throws; the group \<open>g1\<close> has the members \<open>a\<close> and \<open>b\<close>, the
  group \<open>g2\<close> has a member whose lookup throws; the loaders invoke their callback once,
  after they have returned.
\<close>

definition stub_chats :: "Chat list" where
  "stub_chats =
     [\<lparr>chat_id = ''g1'', isGroup = True, unread = False\<rparr>,
      \<lparr>chat_id = ''c2'', isGroup = False, unread = True\<rparr>,
      \<lparr>chat_id = ''g3'', isGroup = True, unread = True\<rparr>]"

definition not_found :: failure where
  "not_found = Thrown ''not found''"

definition stub_WAPI :: "string list WAPI_impl" where
  "stub_WAPI =
     \<lparr>impl_waitNewMessages = (\<lambda>rmCallback w. (\<lparr>sync_calls = [], thrown = None, async_calls = []\<rparr>, w)),
      impl_sendMessage = (\<lambda>to content w. (Inr (), w @ [''message to '' @ to @ '': '' @ content])),
      impl_ReplyMessage = (\<lambda>messageId content w. (Inr (), w @ [''reply to '' @ messageId])),
      impl_sendSeen = (\<lambda>to w. (Inr (), w @ [''seen '' @ to])),
      impl_getAllContacts = (\<lambda>w. (Inr [\<lparr>contact_id = ''a''\<rparr>, \<lparr>contact_id = ''b''\<rparr>], w)),
      impl_getAllChats = (\<lambda>w. (Inr stub_chats, w)),
      impl_getAllChatsWithNewMsg = (\<lambda>w. (Inr (filter unread stub_chats), w)),
      impl_getAllGroups = (\<lambda>w. (Inl (FunctionMissing ''getAllGroups''), w)),
      impl_getMessageById = (\<lambda>messageId w.
         (if messageId = [] then Inl not_found
          else Inr \<lparr>message_id = messageId, message_chat = ''g1''\<rparr>, w)),
      impl_getGroupParticipantIDs = (\<lambda>groupId w.
         (if groupId = [] then Inl not_found
          else if groupId = ''g1'' then Inr [\<lparr>serialized = ''a''\<rparr>, \<lparr>serialized = ''b''\<rparr>]
          else if groupId = ''g2''
            then Inr [\<lparr>serialized = ''a''\<rparr>, \<lparr>serialized = []\<rparr>, \<lparr>serialized = ''b''\<rparr>]
          else Inr [], w)),
      impl_getContact = (\<lambda>contactId w.
         (if contactId = [] then Inl not_found else Inr \<lparr>contact_id = contactId\<rparr>, w)),
      impl_sendContact = (\<lambda>to contact w. (Inr JNull, w @ [''contact to '' @ to])),
      impl_loadAllEarlierMessages = (\<lambda>chatId w.
         (\<lparr>sync_calls = [], thrown = None, async_calls = [()]\<rparr>, w)),
      impl_loadEarlierMessages = (\<lambda>chatId w.
         (\<lparr>sync_calls = [], thrown = None, async_calls = [()]\<rparr>, w)),
      impl_areAllMessagesLoaded = (\<lambda>chatId w. (Inr True, w)),
      impl_getAllMessagesInChat = (\<lambda>chatId w. (Inr [], w)),
      impl_getGroupMetadata = (\<lambda>groupId w.
         (if groupId = [] then Inl not_found else Inr (JObj [(''id'', JStr groupId)]), w)),
      impl_getProfilePicFromId = (\<lambda>ident w.
         (\<lparr>sync_calls = [], thrown = None, async_calls = [''data:image'']\<rparr>, w))\<rparr>"

definition stub_page :: "(string list, unit) Page" where
  "stub_page = \<lparr>closed = False, window = [], api = stub_WAPI, calls = [], bindings = []\<rparr>"

definition stub_world :: "(string list, unit) world" where
  "stub_world = constructed 0 (\<lambda>r. stub_page)"

definition closed_world :: "(string list, unit) world" where
  "closed_world = constructed 0 (\<lambda>r. stub_page\<lparr>closed := True\<rparr>)"

text \<open>The stub with a loader that throws when called and invokes its callback once, later.\<close>

definition throwing_world :: "(string list, unit) world" where
  "throwing_world =
     constructed 0 (\<lambda>r. stub_page\<lparr>api := stub_WAPI\<lparr>impl_loadEarlierMessages :=
       (\<lambda>chatId w. (\<lparr>sync_calls = [], thrown = Some (Thrown ''boom''), async_calls = [()]\<rparr>, w))\<rparr>\<rparr>)"

text \<open>A completion order in which the lookup at index 1 settles before the one at index 0.\<close>

definition later_first :: "nat \<Rightarrow> nat" where
  "later_first i = (if i = 0 then 2 else 1)"

section \<open>Properties\<close>

lemmas page_defs = evaluate_def evaluateHandle_def on_page_def await_def async_return_def
  invoke_def invoke_cb_def seq_def the_page_def log_of_def new_calls_def

lemmas stub_defs = stub_world_def closed_world_def throwing_world_def constructed_def
  Whatsapp_new_def stub_page_def stub_WAPI_def stub_chats_def not_found_def

text \<open>\<^verbatim>\<open>return await p\<close> is \<open>p\<close>.\<close>

lemma await_return: "await m async_return = m"
  by (rule ext) (simp add: await_def async_return_def split: prod.splits promise.splits)

lemmas WAPI_defs = WAPI_sendMessage_def WAPI_ReplyMessage_def WAPI_sendSeen_def
  WAPI_getAllContacts_def WAPI_getAllChats_def WAPI_getAllChatsWithNewMsg_def
  WAPI_getAllGroups_def WAPI_getMessageById_def WAPI_getGroupParticipantIDs_def
  WAPI_getContact_def WAPI_sendContact_def WAPI_areAllMessagesLoaded_def
  WAPI_getAllMessagesInChat_def WAPI_getGroupMetadata_def WAPI_loadAllEarlierMessages_def
  WAPI_loadEarlierMessages_def WAPI_getProfilePicFromId_def

lemmas run_defs = getGroupMembersId_def getContact_def await_return page_defs WAPI_defs

subsection \<open>Sending a text\<close>

text \<open>
  C1: \<^verbatim>\<open>sendText(to, content)\<close> invokes \<^verbatim>\<open>WAPI.sendSeen(to)\<close> before
  \<^verbatim>\<open>WAPI.sendMessage(to, content)\<close>, with both arguments as given. Whatever happens,
  the invocations it makes are an initial part of the list \<open>sendSeen to\<close>,
  \<open>sendMessage to content\<close>, so that a message is never sent without the chat having been
  marked seen first; in an open page in which \<open>sendSeen\<close> returns, it makes exactly these
  two, and the page's state is what \<open>sendMessage\<close> leaves after \<open>sendSeen\<close>.
\<close>

theorem sendText_order:
  "prefix (new_calls st (snd (sendText to content st))) [C_sendSeen to, C_sendMessage to content] \<and>
   (\<not> closed (the_page st) \<and> \<not> isl (fst (impl_sendSeen (api (the_page st)) to (window (the_page st))))
      \<longrightarrow> new_calls st (snd (sendText to content st)) = [C_sendSeen to, C_sendMessage to content]
        \<and> window (the_page (snd (sendText to content st))) =
            snd (impl_sendMessage (api (the_page st)) to content
              (snd (impl_sendSeen (api (the_page st)) to (window (the_page st))))))"
  by (auto simp add: sendText_def await_return page_defs WAPI_sendSeen_def WAPI_sendMessage_def
      split: prod.splits sum.splits)

theorem sendText_order_witness:
  "new_calls stub_world (snd (sendText ''x@c.us'' ''hello'' stub_world)) =
     [C_sendSeen ''x@c.us'', C_sendMessage ''x@c.us'' ''hello''] \<and>
   window (the_page (snd (sendText ''x@c.us'' ''hello'' stub_world))) =
     [''seen x@c.us'', ''message to x@c.us: hello'']"
proof -
  have h: "\<not> closed (the_page stub_world) \<and>
      \<not> isl (fst (impl_sendSeen (api (the_page stub_world)) ''x@c.us'' (window (the_page stub_world))))"
    by (simp add: stub_defs the_page_def)
  from sendText_order [of stub_world "''x@c.us''" "''hello''"] h
  have "new_calls stub_world (snd (sendText ''x@c.us'' ''hello'' stub_world)) =
          [C_sendSeen ''x@c.us'', C_sendMessage ''x@c.us'' ''hello''] \<and>
        window (the_page (snd (sendText ''x@c.us'' ''hello'' stub_world))) =
            snd (impl_sendMessage (api (the_page stub_world)) ''x@c.us'' ''hello''
              (snd (impl_sendSeen (api (the_page stub_world)) ''x@c.us'' (window (the_page stub_world)))))"
    by blast
  then show ?thesis
    by (simp add: stub_defs the_page_def)
qed

subsection \<open>Enumerating chats and groups\<close>

text \<open>
  C4: in an open page, \<^verbatim>\<open>getAllChats(true)\<close> invokes \<^verbatim>\<open>WAPI.getAllChatsWithNewMsg\<close>
  and nothing else, \<^verbatim>\<open>getAllChats(false)\<close> invokes \<^verbatim>\<open>WAPI.getAllChats\<close> and nothing
  else, and each returns what the function it invoked returned or threw.
\<close>

theorem getAllChats_query:
  "\<not> closed (the_page st) \<Longrightarrow>
     new_calls st (snd (getAllChats True st)) = [C_getAllChatsWithNewMsg] \<and>
     fst (getAllChats True st) =
       settle (fst (impl_getAllChatsWithNewMsg (api (the_page st)) (window (the_page st)))) \<and>
     new_calls st (snd (getAllChats False st)) = [C_getAllChats] \<and>
     fst (getAllChats False st) =
       settle (fst (impl_getAllChats (api (the_page st)) (window (the_page st))))"
  by (simp add: getAllChats_def page_defs WAPI_getAllChats_def WAPI_getAllChatsWithNewMsg_def
      split: prod.splits sum.splits promise.splits)

theorem getAllChats_query_witness:
  "new_calls stub_world (snd (getAllChats True stub_world)) = [C_getAllChatsWithNewMsg] \<and>
   fst (getAllChats True stub_world) =
     Fulfilled [\<lparr>chat_id = ''c2'', isGroup = False, unread = True\<rparr>,
                \<lparr>chat_id = ''g3'', isGroup = True, unread = True\<rparr>] \<and>
   new_calls stub_world (snd (getAllChats False stub_world)) = [C_getAllChats] \<and>
   fst (getAllChats False stub_world) =
     Fulfilled [\<lparr>chat_id = ''g1'', isGroup = True, unread = False\<rparr>,
                \<lparr>chat_id = ''c2'', isGroup = False, unread = True\<rparr>,
                \<lparr>chat_id = ''g3'', isGroup = True, unread = True\<rparr>]"
proof -
  have h: "\<not> closed (the_page stub_world)"
    by (simp add: stub_defs the_page_def)
  from getAllChats_query [OF h] show ?thesis
    by (simp add: stub_defs the_page_def)
qed

lemma count_list_filter_eq: "P x \<Longrightarrow> count_list (filter P xs) x = count_list xs x"
  by (induction xs) auto

text \<open>
  C2: when the enumeration the flag selects returns the collection \<open>chats\<close> in an open
  page, \<^verbatim>\<open>getAllGroups\<close> is fulfilled with the entries of \<open>chats\<close> whose group flag is
  set: a subsequence of \<open>chats\<close> (the order is kept), all of whose entries are groups, in
  which every group of \<open>chats\<close> occurs as often as in \<open>chats\<close>.
\<close>

theorem getAllGroups_filter:
  assumes "\<not> closed (the_page st)"
    and "(if b then impl_getAllChatsWithNewMsg else impl_getAllChats)
           (api (the_page st)) (window (the_page st)) = (Inr chats, w')"
  shows "\<exists>gs. fst (getAllGroups b st) = Fulfilled gs \<and> gs = filter isGroup chats \<and>
           subseq gs chats \<and> list_all isGroup gs \<and>
           (\<forall>c. isGroup c \<longrightarrow> count_list gs c = count_list chats c)"
  using assms
  by (cases b)
    (simp_all add: getAllGroups_def page_defs WAPI_getAllChats_def WAPI_getAllChatsWithNewMsg_def
      count_list_filter_eq list_all_iff)

theorem getAllGroups_filter_witness:
  "fst (getAllGroups False stub_world) =
     Fulfilled [\<lparr>chat_id = ''g1'', isGroup = True, unread = False\<rparr>,
                \<lparr>chat_id = ''g3'', isGroup = True, unread = True\<rparr>]"
proof -
  have h: "\<not> closed (the_page stub_world)"
    by (simp add: stub_defs the_page_def)
  have e: "(if False then impl_getAllChatsWithNewMsg else impl_getAllChats)
      (api (the_page stub_world)) (window (the_page stub_world)) = (Inr stub_chats, [])"
    by (simp add: stub_defs the_page_def)
  from getAllGroups_filter [OF h e] show ?thesis
    by (auto simp add: stub_chats_def)
qed

text \<open>
  C9: \<^verbatim>\<open>getAllGroups(b)\<close> returns the result of \<^verbatim>\<open>getAllChats(b)\<close> with the entries
  that are not groups filtered out, and leaves the same state behind; it invokes at most the
  one enumeration \<^verbatim>\<open>getAllChats(b)\<close> invokes, and never \<^verbatim>\<open>WAPI.getAllGroups\<close>, whose
  behaviour has no influence on the result.
\<close>

theorem getAllGroups_getAllChats:
  "fst (getAllGroups b st) = map_promise (filter isGroup) (fst (getAllChats b st)) \<and>
   snd (getAllGroups b st) = snd (getAllChats b st) \<and>
   prefix (new_calls st (snd (getAllGroups b st)))
     [if b then C_getAllChatsWithNewMsg else C_getAllChats] \<and>
   C_getAllGroups \<notin> set (new_calls st (snd (getAllGroups b st))) \<and>
   fst (getAllGroups b (with_api (\<lambda>W. W\<lparr>impl_getAllGroups := g\<rparr>) st)) = fst (getAllGroups b st)"
  by (cases b)
    (auto simp add: getAllGroups_def getAllChats_def page_defs with_api_def
      WAPI_getAllChats_def WAPI_getAllChatsWithNewMsg_def
      split: prod.splits sum.splits promise.splits)

subsection \<open>Keyed reads\<close>

text \<open>
  C7: each keyed read (\<^verbatim>\<open>getContact\<close>, \<^verbatim>\<open>getMessageById\<close>, \<^verbatim>\<open>getGroupMetadata\<close>,
  \<^verbatim>\<open>getGroupMembersId\<close>) rejects with the very failure its evaluation in the page
  rejects with: the failure the injected function throws in an open page, and the
  failure of the automation layer in a closed one.
\<close>

theorem keyed_read_failure:
  "(fst (on_page (evaluate WAPI_getContact k) st) = Rejected e \<longrightarrow>
      fst (getContact k st) = Rejected e) \<and>
   (fst (on_page (evaluate WAPI_getMessageById k) st) = Rejected e \<longrightarrow>
      fst (getMessageById k st) = Rejected e) \<and>
   (fst (on_page (evaluate WAPI_getGroupMetadata k) st) = Rejected e \<longrightarrow>
      fst (getGroupMetadata k st) = Rejected e) \<and>
   (fst (on_page (evaluate WAPI_getGroupParticipantIDs k) st) = Rejected e \<longrightarrow>
      fst (getGroupMembersId k st) = Rejected e) \<and>
   (\<not> closed (the_page st) \<and>
    fst (impl_getContact (api (the_page st)) k (window (the_page st))) = Inl e \<longrightarrow>
      fst (getContact k st) = Rejected e) \<and>
   (\<not> closed (the_page st) \<and>
    fst (impl_getMessageById (api (the_page st)) k (window (the_page st))) = Inl e \<longrightarrow>
      fst (getMessageById k st) = Rejected e) \<and>
   (\<not> closed (the_page st) \<and>
    fst (impl_getGroupMetadata (api (the_page st)) k (window (the_page st))) = Inl e \<longrightarrow>
      fst (getGroupMetadata k st) = Rejected e) \<and>
   (\<not> closed (the_page st) \<and>
    fst (impl_getGroupParticipantIDs (api (the_page st)) k (window (the_page st))) = Inl e \<longrightarrow>
      fst (getGroupMembersId k st) = Rejected e) \<and>
   (closed (the_page st) \<longrightarrow>
      fst (getContact k st) = Rejected ContextDestroyed \<and>
      fst (getMessageById k st) = Rejected ContextDestroyed \<and>
      fst (getGroupMetadata k st) = Rejected ContextDestroyed \<and>
      fst (getGroupMembersId k st) = Rejected ContextDestroyed)"
  by (simp add: getContact_def getMessageById_def getGroupMetadata_def getGroupMembersId_def
      await_return page_defs WAPI_getContact_def WAPI_getMessageById_def
      WAPI_getGroupMetadata_def WAPI_getGroupParticipantIDs_def split: prod.splits)

theorem keyed_read_failure_witness:
  "fst (getContact [] stub_world) = Rejected (Thrown ''not found'') \<and>
   fst (getMessageById [] stub_world) = Rejected (Thrown ''not found'') \<and>
   fst (getGroupMetadata [] stub_world) = Rejected (Thrown ''not found'') \<and>
   fst (getGroupMembersId [] stub_world) = Rejected (Thrown ''not found'') \<and>
   fst (getContact ''a'' closed_world) = Rejected ContextDestroyed \<and>
   fst (getMessageById ''a'' closed_world) = Rejected ContextDestroyed \<and>
   fst (getGroupMetadata ''a'' closed_world) = Rejected ContextDestroyed \<and>
   fst (getGroupMembersId ''a'' closed_world) = Rejected ContextDestroyed"
proof -
  have o: "\<not> closed (the_page stub_world)" and c: "closed (the_page closed_world)"
    by (simp_all add: stub_defs the_page_def)
  have f: "fst (impl_getContact (api (the_page stub_world)) [] (window (the_page stub_world))) =
        Inl (Thrown ''not found'')"
      "fst (impl_getMessageById (api (the_page stub_world)) [] (window (the_page stub_world))) =
        Inl (Thrown ''not found'')"
      "fst (impl_getGroupMetadata (api (the_page stub_world)) [] (window (the_page stub_world))) =
        Inl (Thrown ''not found'')"
      "fst (impl_getGroupParticipantIDs (api (the_page stub_world)) [] (window (the_page stub_world))) =
        Inl (Thrown ''not found'')"
    by (simp_all add: stub_defs the_page_def)
  from keyed_read_failure [of "[]" stub_world "Thrown ''not found''"]
    keyed_read_failure [of "''a''" closed_world ContextDestroyed] o c f
  show ?thesis
    by simp
qed

subsection \<open>The members of a group\<close>

lemma getGroupMembersId_Fulfilled:
  assumes "getGroupMembersId g st = (Fulfilled ids, st1)"
  shows "\<not> closed (the_page st1) \<and> this st1 = this st \<and> api (the_page st1) = api (the_page st) \<and>
         log_of st1 = log_of st @ [C_getGroupParticipantIDs g]"
  using assms
  by (auto simp add: getGroupMembersId_def await_return page_defs WAPI_getGroupParticipantIDs_def
      split: prod.splits if_splits)



lemma Promise_all_Fulfilled:
  "Promise_all delay (map Fulfilled vs) st = (Fulfilled vs, st)"
proof -
  have r: "List.map_filter (\<lambda>i. rejection (map Fulfilled vs ! i)) is = []"
    if "set is \<subseteq> {0..<length vs}" for "is"
    using that by (induction "is") simp_all
  have t: "those (map fulfilment (map Fulfilled vs)) = Some vs"
    by (induction vs) simp_all
  have "set (completion_order delay (length vs)) \<subseteq> {0..<length vs}"
    by (simp add: completion_order_def)
  from r [OF this] t show ?thesis
    by (simp add: Promise_all_def)
qed

lemma Promise_all_Rejected:
  assumes "Rejected e \<in> set ps"
  shows "\<exists>e'. Promise_all delay ps st = (Rejected e', st) \<and> Rejected e' \<in> set ps"
proof -
  let ?ord = "completion_order delay (length ps)"
  let ?rs = "List.map_filter (\<lambda>i. rejection (ps ! i)) ?ord"
  from assms obtain i where i: "i < length ps" "ps ! i = Rejected e"
    by (auto simp add: in_set_conv_nth)
  have ord: "set ?ord = {0..<length ps}"
    by (simp add: completion_order_def)
  have "e \<in> set ?rs"
    using i ord by (force simp add: List.map_filter_def)
  then obtain e' es where rs: "?rs = e' # es"
    by (cases ?rs) auto
  then have "e' \<in> set ?rs" by simp
  then obtain j where j: "j \<in> set ?ord" "rejection (ps ! j) = Some e'"
    by (auto simp add: List.map_filter_def)
  from j(2) have "ps ! j = Rejected e'"
    by (cases "ps ! j") simp_all
  moreover from j(1) ord have "j < length ps" by simp
  ultimately have "Rejected e' \<in> set ps"
    by (metis nth_mem)
  with rs show ?thesis
    by (simp add: Promise_all_def)
qed

lemma getGroupMembers_unfold:
  assumes "getGroupMembersId g st = (Fulfilled ids, st1)"
    and "Array_map (\<lambda>memberId. getContact (serialized memberId)) ids st1 = (ps, st2)"
  shows "getGroupMembers delay g st = Promise_all delay ps st2"
  using assms by (simp add: getGroupMembers_def await_def await_return)

lemma Promise_all_state: "snd (Promise_all delay ps st) = st"
  by (simp add: Promise_all_def split: list.splits option.splits)




text \<open>
  C5: when one of the lookups \<^verbatim>\<open>getGroupMembers\<close> makes is rejected, the whole call is
  rejected, with the failure of one of the rejected lookups; no collection is returned.
\<close>

theorem getGroupMembers_fails:
  assumes "getGroupMembersId g st = (Fulfilled ids, st1)"
    and "Array_map (\<lambda>memberId. getContact (serialized memberId)) ids st1 = (ps, st2)"
    and "Rejected e \<in> set ps"
  shows "\<exists>e'. getGroupMembers delay g st = (Rejected e', st2) \<and> Rejected e' \<in> set ps"
  using Promise_all_Rejected [OF assms(3), of delay st2]
  by (simp add: getGroupMembers_unfold [OF assms(1,2)])

theorem getGroupMembers_fails_witness:
  "fst (getGroupMembers later_first ''g2'' stub_world) = Rejected (Thrown ''not found'')"
proof -
  let ?ids = "[\<lparr>serialized = ''a''\<rparr>, \<lparr>serialized = []\<rparr>, \<lparr>serialized = ''b''\<rparr>]"
  let ?st1 = "snd (getGroupMembersId ''g2'' stub_world)"
  define run where "run = Array_map (\<lambda>memberId. getContact (serialized memberId)) ?ids ?st1"
  have i: "getGroupMembersId ''g2'' stub_world = (Fulfilled ?ids, ?st1)"
    by (simp add: prod_eq_iff run_defs stub_defs)
  have a: "Array_map (\<lambda>memberId. getContact (serialized memberId)) ?ids ?st1 = (fst run, snd run)"
    by (simp only: run_def prod.collapse)
  have p: "fst run =
      [Fulfilled \<lparr>contact_id = ''a''\<rparr>, Rejected (Thrown ''not found''),
       Fulfilled \<lparr>contact_id = ''b''\<rparr>]"
    by (simp add: run_def run_defs stub_defs)
  then have r: "Rejected (Thrown ''not found'') \<in> set (fst run)"
    by simp
  from getGroupMembers_fails [OF i a r, of later_first] show ?thesis
    by (auto simp add: p)
qed

text \<open>
  C10: when \<^verbatim>\<open>getGroupMembersId\<close> resolves with no identifier, \<^verbatim>\<open>getGroupMembers\<close>
  resolves with the empty collection and does nothing more: the state is the one the
  identifier query left, and the only invocation made is that query.
\<close>

theorem getGroupMembers_empty:
  assumes "getGroupMembersId g st = (Fulfilled [], st1)"
  shows "getGroupMembers delay g st = (Fulfilled [], st1) \<and>
         new_calls st (snd (getGroupMembers delay g st)) = [C_getGroupParticipantIDs g]"
proof -
  have u: "getGroupMembers delay g st = Promise_all delay [] st1"
    by (rule getGroupMembers_unfold [OF assms]) simp
  have p: "Promise_all delay ([] :: Contact promise list) st1 = (Fulfilled [], st1)"
    using Promise_all_Fulfilled [of delay "[]" st1] by simp
  from getGroupMembersId_Fulfilled [OF assms] show ?thesis
    by (simp add: u p new_calls_def)
qed

theorem getGroupMembers_empty_witness:
  "fst (getGroupMembers later_first ''g9'' stub_world) = Fulfilled [] \<and>
   new_calls stub_world (snd (getGroupMembers later_first ''g9'' stub_world)) =
     [C_getGroupParticipantIDs ''g9'']"
proof -
  have i: "getGroupMembersId ''g9'' stub_world =
      (Fulfilled [], snd (getGroupMembersId ''g9'' stub_world))"
    by (simp add: prod_eq_iff run_defs stub_defs)
  note t = getGroupMembers_empty [OF i, of later_first]
  from t [THEN conjunct1] have a: "fst (getGroupMembers later_first ''g9'' stub_world) = Fulfilled []"
    by simp
  from a t [THEN conjunct2] show ?thesis
    by (rule conjI)
qed

subsection \<open>Earlier messages\<close>

lemma resolve_settled: "state c \<noteq> Pending \<Longrightarrow> resolve v c = c"
  by (cases "state c") (simp_all add: resolve_def)

lemma fold_resolve_settled:
  "state c \<noteq> Pending \<Longrightarrow> fold (\<lambda>act. act) (map (\<lambda>x. resolve (k x)) xs) c = c"
  by (induction xs) (simp_all add: resolve_settled)

lemma reject_settled: "state c \<noteq> Pending \<Longrightarrow> reject e c = c"
  by (cases "state c") (simp_all add: reject_def)

lemma fold_resolve:
  "fold (\<lambda>act. act) (map (\<lambda>x. resolve (k x)) xs) c =
     (if state c = Pending \<and> xs \<noteq> []
      then \<lparr>state = Fulfilled (k (hd xs)), settlements = Suc (settlements c)\<rparr>
      else c)"
proof (cases xs)
  case Nil
  then show ?thesis by simp
next
  case (Cons x ys)
  show ?thesis
  proof (cases "state c = Pending")
    case True
    then have "state (resolve (k x) c) \<noteq> Pending"
      and "resolve (k x) c = \<lparr>state = Fulfilled (k x), settlements = Suc (settlements c)\<rparr>"
      by (simp_all add: resolve_def)
    with Cons True show ?thesis
      by (simp add: fold_resolve_settled)
  next
    case False
    then show ?thesis
      by (simp add: fold_resolve_settled)
  qed
qed

text \<open>What becomes of the promise around a callback-style call: the first thing the call
  does settles it, be it an invocation of the callback or a throw.\<close>

lemma perform_resolve:
  "perform (map_run (\<lambda>x. resolve (k x)) r) =
     (if sync_calls r \<noteq> [] then \<lparr>state = Fulfilled (k (hd (sync_calls r))), settlements = 1\<rparr>
      else case thrown r of
             Some e \<Rightarrow> \<lparr>state = Rejected e, settlements = 1\<rparr>
           | None \<Rightarrow>
               if async_calls r \<noteq> []
               then \<lparr>state = Fulfilled (k (hd (async_calls r))), settlements = 1\<rparr>
               else \<lparr>state = Pending, settlements = 0\<rparr>)"
  by (cases "thrown r")
    (simp_all add: perform_def map_run_def fold_resolve new_cell_def reject_def)

lemma settled_right_resolve: "settled_right c \<Longrightarrow> settled_right (resolve v c)"
  by (cases "state c") (simp_all add: settled_right_def resolve_def)

lemma settled_right_reject: "settled_right c \<Longrightarrow> settled_right (reject e c)"
  by (cases "state c") (simp_all add: settled_right_def reject_def)

lemma settled_right_fold:
  "settled_right c \<Longrightarrow> settled_right (fold (\<lambda>act. act) (map (\<lambda>x. resolve (k x)) xs) c)"
  by (induction xs arbitrary: c) (simp_all add: settled_right_resolve)

lemma settled_right_new_cell: "settled_right new_cell"
  by (simp add: settled_right_def new_cell_def)

text \<open>A promise built around a callback settles at most once, however often the callback
  is invoked.\<close>

lemma perform_single_resolution:
  "settlements (perform (map_run (\<lambda>x. resolve (k x)) r)) \<le> 1"
proof -
  let ?sync = "fold (\<lambda>act. act) (map (\<lambda>x. resolve (k x)) (sync_calls r)) new_cell"
  have s: "settled_right ?sync"
    by (rule settled_right_fold [OF settled_right_new_cell])
  have t: "settled_right ((case thrown r of None \<Rightarrow> (\<lambda>c. c) | Some e \<Rightarrow> reject e) ?sync)"
    using s by (cases "thrown r") (simp_all add: settled_right_reject)
  have "settled_right (perform (map_run (\<lambda>x. resolve (k x)) r))"
    unfolding perform_def map_run_def callback_run.simps
    by (rule settled_right_fold [OF t])
  then show ?thesis
    by (simp add: settled_right_def)
qed

text \<open>A loader that returns and never invokes its callback leaves the call pending.\<close>

lemma loadEarlierMessagesInChat_hangs:
  assumes "\<not> closed (the_page st)"
    and "impl_loadEarlierMessages (api (the_page st)) chatId (window (the_page st)) =
           (\<lparr>sync_calls = [], thrown = None, async_calls = []\<rparr>, w')"
  shows "fst (loadEarlierMessagesInChat chatId st) = Pending"
  using assms
  by (simp add: loadEarlierMessagesInChat_def await_return page_defs new_Promise_def
      WAPI_loadEarlierMessages_def perform_def map_run_def new_cell_def)

text \<open>
  C6: \<^verbatim>\<open>loadEarlierMessagesInChat(chatId)\<close> passes \<open>chatId\<close> on to
  \<^verbatim>\<open>WAPI.loadEarlierMessages\<close>, the only invocation it makes, and in an open page the
  call settles by what the loader does first. When the loader invokes the callback before
  it throws (in particular: exactly once, without having thrown before), the call is
  fulfilled; when the loader throws before any invocation of the callback, the call is
  rejected with the failure thrown, whatever the callback does later; when the loader
  returns and never invokes the callback, the call stays pending. The call's outcome is
  the state of the promise built in the page, and that promise settles exactly once
  unless it stays pending.
\<close>

theorem loadEarlierMessagesInChat_settles:
  assumes "\<not> closed (the_page st)"
    and "impl_loadEarlierMessages (api (the_page st)) chatId (window (the_page st)) = (run, w')"
  shows "new_calls st (snd (loadEarlierMessagesInChat chatId st)) = [C_loadEarlierMessages chatId] \<and>
         window (the_page (snd (loadEarlierMessagesInChat chatId st))) = w' \<and>
         fst (loadEarlierMessagesInChat chatId st) =
           (if sync_calls run \<noteq> [] then Fulfilled (JSHandle ())
            else case thrown run of
                   Some e \<Rightarrow> Rejected e
                 | None \<Rightarrow> if async_calls run \<noteq> [] then Fulfilled (JSHandle ()) else Pending) \<and>
         fst (loadEarlierMessagesInChat chatId st) =
           handle_of (state (fst (new_Promise
             (\<lambda>resolve. WAPI_loadEarlierMessages chatId (\<lambda>u. resolve ())) (the_page st)))) \<and>
         settlements (fst (new_Promise
             (\<lambda>resolve. WAPI_loadEarlierMessages chatId (\<lambda>u. resolve ())) (the_page st))) =
           (if callbacks run = [] \<and> thrown run = None then 0 else 1)"
  using assms
  by (cases "thrown run")
    (simp_all add: loadEarlierMessagesInChat_def await_return page_defs new_Promise_def
      WAPI_loadEarlierMessages_def perform_resolve callbacks_def)

theorem loadEarlierMessagesInChat_settles_witness:
  "new_calls stub_world (snd (loadEarlierMessagesInChat ''c2'' stub_world)) =
     [C_loadEarlierMessages ''c2''] \<and>
   fst (loadEarlierMessagesInChat ''c2'' stub_world) = Fulfilled (JSHandle ()) \<and>
   fst (loadEarlierMessagesInChat ''c2'' throwing_world) = Rejected (Thrown ''boom'')"
proof -
  have h: "\<not> closed (the_page stub_world)" "\<not> closed (the_page throwing_world)"
    by (simp_all add: stub_defs the_page_def)
  have r: "impl_loadEarlierMessages (api (the_page stub_world)) ''c2''
      (window (the_page stub_world)) =
        (\<lparr>sync_calls = [], thrown = None, async_calls = [()]\<rparr>, [])"
    by (simp add: stub_defs the_page_def)
  have t: "impl_loadEarlierMessages (api (the_page throwing_world)) ''c2''
      (window (the_page throwing_world)) =
        (\<lparr>sync_calls = [], thrown = Some (Thrown ''boom''), async_calls = [()]\<rparr>, [])"
    by (simp add: stub_defs the_page_def)
  from loadEarlierMessagesInChat_settles [OF h(1) r]
    loadEarlierMessagesInChat_settles [OF h(2) t]
  show ?thesis
    by simp
qed

text \<open>
  One invocation of the callback alone is not enough for the call to resolve: the loader of \<open>throwing_world\<close> is passed the chat identifier and invokes
  its callback exactly once, but it has thrown before, and the call is rejected.
\<close>

theorem loadEarlierMessagesInChat_once_counterexample:
  "\<not> closed (the_page throwing_world) \<and>
   callbacks (fst (impl_loadEarlierMessages (api (the_page throwing_world)) ''c2''
      (window (the_page throwing_world)))) = [()] \<and>
   new_calls throwing_world (snd (loadEarlierMessagesInChat ''c2'' throwing_world)) =
     [C_loadEarlierMessages ''c2''] \<and>
   fst (loadEarlierMessagesInChat ''c2'' throwing_world) = Rejected (Thrown ''boom'')"
  by (simp add: loadEarlierMessagesInChat_def await_return page_defs new_Promise_def
      WAPI_loadEarlierMessages_def perform_def map_run_def new_cell_def reject_def resolve_def
      callbacks_def stub_defs)

subsection \<open>The session handle\<close>

lemma session_kept_refl: "session_kept st st"
  by (simp add: session_kept_def)

lemma session_kept_trans:
  "session_kept st st' \<Longrightarrow> session_kept st' st'' \<Longrightarrow> session_kept st st''"
  by (simp add: session_kept_def)

lemma session_kept_evaluate:
  assumes "\<And>pg. closed (snd (fn arg pg)) = closed pg"
  shows "session_kept st (snd (on_page (evaluate fn arg) st))"
  using assms [of "heap st (page (this st))"]
  by (simp add: session_kept_def on_page_def evaluate_def case_prod_beta)

lemma session_kept_evaluateHandle:
  assumes "\<And>pg. closed (snd (fn arg pg)) = closed pg"
  shows "session_kept st (snd (on_page (evaluateHandle fn arg) st))"
  using assms [of "heap st (page (this st))"]
  by (simp add: session_kept_def on_page_def evaluateHandle_def case_prod_beta)

lemma closed_invoke: "closed (snd (invoke c f pg)) = closed pg"
  by (simp add: invoke_def case_prod_beta)

lemma closed_invoke_cb: "closed (snd (invoke_cb c f cb pg)) = closed pg"
  by (simp add: invoke_cb_def case_prod_beta)

lemma closed_seq:
  assumes "\<And>pg. closed (snd (a pg)) = closed pg" and "\<And>pg. closed (snd (b pg)) = closed pg"
  shows "closed (snd (seq a b pg)) = closed pg"
proof (cases "a pg")
  case (Pair r pg')
  with assms(1) [of pg] have c: "closed pg' = closed pg" by simp
  show ?thesis
  proof (cases r)
    case (Inl e)
    with Pair c show ?thesis by (simp add: seq_def)
  next
    case (Inr u)
    with Pair c assms(2) [of pg'] show ?thesis by (simp add: seq_def)
  qed
qed

lemma closed_new_Promise:
  assumes "\<And>pg. closed (snd (executor resolve pg)) = closed pg"
  shows "closed (snd (new_Promise executor pg)) = closed pg"
  using assms [of pg] by (simp add: new_Promise_def case_prod_beta)
lemma session_kept_await:
  assumes "session_kept st (snd (m st))"
    and "\<And>v st'. session_kept st' (snd (k v st'))"
  shows "session_kept st (snd (await m k st))"
proof (cases "m st")
  case (Pair p st')
  with assms(1) have a: "session_kept st st'" by simp
  show ?thesis
  proof (cases p)
    case Pending
    with Pair a show ?thesis by (simp add: await_def)
  next
    case (Fulfilled v)
    with Pair session_kept_trans [OF a assms(2) [of st' v]] show ?thesis
      by (simp add: await_def)
  next
    case (Rejected e)
    with Pair a show ?thesis by (simp add: await_def)
  qed
qed

lemma session_kept_getContact: "session_kept st (snd (getContact k st))"
  unfolding getContact_def await_return
  by (rule session_kept_evaluate) (simp add: WAPI_defs closed_invoke)

lemma session_kept_getGroupMembersId: "session_kept st (snd (getGroupMembersId g st))"
  unfolding getGroupMembersId_def await_return
  by (rule session_kept_evaluate) (simp add: WAPI_defs closed_invoke)

lemma session_kept_Array_map:
  "session_kept st (snd (Array_map (\<lambda>memberId. getContact (serialized memberId)) ids st))"
proof (induction ids arbitrary: st)
  case Nil
  show ?case by (simp add: session_kept_refl)
next
  case (Cons m ms)
  obtain p sa where a: "getContact (serialized m) st = (p, sa)"
    by (cases "getContact (serialized m) st")
  with session_kept_getContact [of st "serialized m"] have "session_kept st sa"
    by simp
  from session_kept_trans [OF this Cons.IH [of sa]] a show ?case
    by (simp add: case_prod_beta)
qed
lemma session_kept_getGroupMembers: "session_kept st (snd (getGroupMembers delay g st))"
  unfolding getGroupMembers_def await_return
proof (rule session_kept_await [OF session_kept_getGroupMembersId])
  fix v st'
  show "session_kept st'
     (snd (case Array_map (\<lambda>memberId. getContact (serialized memberId)) v st' of
           (actions, x) \<Rightarrow> Promise_all delay actions x))"
    using session_kept_Array_map [of st' v]
    by (simp add: Promise_all_state case_prod_beta)
qed

lemma session_kept_onMessage: "session_kept st (onMessage name fn st)"
  by (simp add: onMessage_def on_page_def exposeFunction_def session_kept_def)

lemma session_kept_sendText: "session_kept st (snd (sendText to content st))"
  unfolding sendText_def await_return
  by (rule session_kept_evaluate) (simp add: WAPI_defs closed_invoke closed_seq)

lemma session_kept_replyMessage: "session_kept st (snd (replyMessage messageId content st))"
  unfolding replyMessage_def await_return
  by (rule session_kept_evaluate) (simp add: WAPI_defs closed_invoke)

lemma session_kept_sendContact: "session_kept st (snd (sendContact to contactId st))"
  unfolding sendContact_def await_return
  by (rule session_kept_evaluate) (simp add: WAPI_defs closed_invoke)

lemma session_kept_getAllContacts: "session_kept st (snd (getAllContacts st))"
  unfolding getAllContacts_def await_return
  by (rule session_kept_evaluate) (simp add: WAPI_defs closed_invoke)

lemma session_kept_getAllChats: "session_kept st (snd (getAllChats b st))"
  unfolding getAllChats_def await_return
  by (cases b) (simp_all add: session_kept_evaluate WAPI_defs closed_invoke)

lemma session_kept_getAllGroups: "session_kept st (snd (getAllGroups b st))"
  unfolding getAllGroups_def
  by (cases b)
    (simp_all add: session_kept_await session_kept_evaluate WAPI_defs closed_invoke
      async_return_def session_kept_refl)

lemma session_kept_getGroupMetadata: "session_kept st (snd (getGroupMetadata groupId st))"
  unfolding getGroupMetadata_def await_return
  by (rule session_kept_evaluate) (simp add: WAPI_defs closed_invoke)

lemma session_kept_getProfilePicFromId: "session_kept st (snd (getProfilePicFromId ident st))"
  unfolding getProfilePicFromId_def await_return
  by (rule session_kept_evaluateHandle) (simp add: WAPI_defs closed_invoke_cb closed_new_Promise)

lemma session_kept_getMessageById: "session_kept st (snd (getMessageById messageId st))"
  unfolding getMessageById_def await_return
  by (rule session_kept_evaluate) (simp add: WAPI_defs closed_invoke)

lemma session_kept_areAllMessagesLoaded: "session_kept st (snd (areAllMessagesLoaded chatId st))"
  unfolding areAllMessagesLoaded_def await_return
  by (rule session_kept_evaluate) (simp add: WAPI_defs closed_invoke)

lemma session_kept_loadEarlierMessagesInChat: "session_kept st (snd (loadEarlierMessagesInChat chatId st))"
  unfolding loadEarlierMessagesInChat_def await_return
  by (rule session_kept_evaluateHandle) (simp add: WAPI_defs closed_invoke_cb closed_new_Promise)

lemma session_kept_loadAllEarlierMessagesInChat: "session_kept st (snd (loadAllEarlierMessagesInChat chatId st))"
  unfolding loadAllEarlierMessagesInChat_def await_return
  by (rule session_kept_evaluateHandle) (simp add: WAPI_defs closed_invoke_cb closed_new_Promise)

lemma session_kept_getAllMessagesInChat: "session_kept st (snd (getAllMessagesInChat chatId st))"
  unfolding getAllMessagesInChat_def await_return
  by (rule session_kept_evaluate) (simp add: WAPI_defs closed_invoke)

text \<open>
  C8: for an object constructed on the page reference \<open>p\<close>, after every public method
  the object still refers to \<open>p\<close>, and the page is closed exactly if it was before.
\<close>

theorem session_handle_kept:
  "page (this (constructed p h)) = p \<and>
   session_kept (constructed p h) (onMessage name fn (constructed p h)) \<and>
   session_kept (constructed p h) (snd (sendText to content (constructed p h))) \<and>
   session_kept (constructed p h) (snd (replyMessage messageId content (constructed p h))) \<and>
   session_kept (constructed p h) (snd (sendContact to contactId (constructed p h))) \<and>
   session_kept (constructed p h) (snd (getAllContacts (constructed p h))) \<and>
   session_kept (constructed p h) (snd (getAllChats b (constructed p h))) \<and>
   session_kept (constructed p h) (snd (getAllGroups b (constructed p h))) \<and>
   session_kept (constructed p h) (snd (getGroupMembersId groupId (constructed p h))) \<and>
   session_kept (constructed p h) (snd (getGroupMembers delay groupId (constructed p h))) \<and>
   session_kept (constructed p h) (snd (getGroupMetadata groupId (constructed p h))) \<and>
   session_kept (constructed p h) (snd (getProfilePicFromId ident (constructed p h))) \<and>
   session_kept (constructed p h) (snd (getContact contactId' (constructed p h))) \<and>
   session_kept (constructed p h) (snd (getMessageById messageId (constructed p h))) \<and>
   session_kept (constructed p h) (snd (areAllMessagesLoaded chatId (constructed p h))) \<and>
   session_kept (constructed p h) (snd (loadEarlierMessagesInChat chatId (constructed p h))) \<and>
   session_kept (constructed p h) (snd (loadAllEarlierMessagesInChat chatId (constructed p h))) \<and>
   session_kept (constructed p h) (snd (getAllMessagesInChat chatId (constructed p h)))"
  by (simp only: constructed_def Whatsapp_new_def Whatsapp.simps world.simps
      session_kept_onMessage session_kept_sendText session_kept_replyMessage session_kept_sendContact session_kept_getAllContacts session_kept_getAllChats session_kept_getAllGroups session_kept_getGroupMetadata session_kept_getProfilePicFromId session_kept_getMessageById session_kept_areAllMessagesLoaded session_kept_loadEarlierMessagesInChat session_kept_loadAllEarlierMessagesInChat session_kept_getAllMessagesInChat
      session_kept_getContact session_kept_getGroupMembersId session_kept_getGroupMembers
      simp_thms)

end
